theory Spec2Isabelle
  imports Main "HOL-Library.Word"
begin

unbundle bit_operations_syntax

section \<open>BresserWeatherSensorTTN: session store, scheduler, uplink and sleep control\<close>

text \<open>
  A shallow embedding of \<^verbatim>\<open>BresserWeatherSensorTTN.ino\<close>.  Global variables of the
  sketch become fields of records, member functions become functions that take the state
  and return the new one, and everything the sketch obtains from a library (the LMIC
  operating mode, the result of \<^verbatim>\<open>SendBuffer\<close>, sensor readings, clocks) is an argument.
\<close>

subsection \<open>Build configuration and constants of the sketch\<close>

type_synonym byte = "8 word"

text \<open>
  The preprocessor switches the modelled functions depend on.  \<^verbatim>\<open>ONEWIRE_EN\<close> is not
  among them: lines 946-951 of \<^verbatim>\<open>doUplink\<close> use \<^verbatim>\<open>water_temp_c\<close> outside the \<^verbatim>\<open>#ifdef\<close>
  that declares it, so the sketch compiles only with \<^verbatim>\<open>ONEWIRE_EN\<close> defined, as it is.
\<close>

record build_cfg =
  SLEEP_EN :: bool
  FORCE_SLEEP :: bool
  SENSORID_EN :: bool
  ENCODE_AS_FLOAT :: bool
  ADC_EN :: bool
  PIN_ADC3_IN :: bool
  MITHERMOMETER_EN :: bool

text \<open>The switches as the sketch sets them (lines 106-141 and 182).\<close>

definition sketch_cfg :: build_cfg where
  "sketch_cfg = \<lparr> SLEEP_EN = True, FORCE_SLEEP = True, SENSORID_EN = False,
     ENCODE_AS_FLOAT = False, ADC_EN = True, PIN_ADC3_IN = True,
     MITHERMOMETER_EN = True \<rparr>"

definition SLEEP_INTERVAL :: nat where
  "SLEEP_INTERVAL = 360"

definition SLEEP_TIMEOUT_INITIAL :: int where
  "SLEEP_TIMEOUT_INITIAL = 1800"

definition SLEEP_TIMEOUT_JOINED :: int where
  "SLEEP_TIMEOUT_JOINED = 600"

definition PAYLOAD_SIZE :: nat where
  "PAYLOAD_SIZE = 36"

definition EXTRA_INFO_MEM_SIZE :: nat where
  "EXTRA_INFO_MEM_SIZE = 64"

text \<open>
  \<^verbatim>\<open>#define MAGIC1 (('m' << 24) | ('g' < 16) | ('c' << 8) | '1')\<close>: the second operand is
  the comparison \<^verbatim>\<open>'g' < 16\<close> as the sketch writes it, with the character codes
  \<^verbatim>\<open>'m'\<close> = 109, \<^verbatim>\<open>'g'\<close> = 103, \<^verbatim>\<open>'c'\<close> = 99, \<^verbatim>\<open>'1'\<close> = 49, \<^verbatim>\<open>'2'\<close> = 50.
\<close>

definition MAGIC1 :: "32 word" where
  "MAGIC1 = push_bit 24 109 OR (if (103::int) < 16 then 1 else 0) OR push_bit 8 99 OR 49"

definition MAGIC2 :: "32 word" where
  "MAGIC2 = push_bit 24 109 OR (if (103::int) < 16 then 1 else 0) OR push_bit 8 99 OR 50"

text \<open>
  Constants of the libraries the sketch is compiled against: the LMIC operating-mode bits
  tested by \<^verbatim>\<open>doUplink\<close> and the tick rate behind \<^verbatim>\<open>sec2osticks\<close>.  They are not
  defined in the sketch and are taken as parameters.
\<close>

record lib_consts =
  OP_POLL :: "16 word"
  OP_TXDATA :: "16 word"
  OP_TXRXPEND :: "16 word"
  OSTICKS_PER_SEC :: int

text \<open>
  \<^verbatim>\<open>sec2osticks(sec)\<close> is \<^verbatim>\<open>(ostime_t)((int64_t)(sec) * OSTICKS_PER_SEC)\<close>; \<^verbatim>\<open>ostime_t\<close>
  is a signed 32-bit integer, the conversion keeps the low 32 bits.
\<close>

definition sec2osticks :: "lib_consts \<Rightarrow> int \<Rightarrow> 32 word" where
  "sec2osticks lc sec = word_of_int (sec * OSTICKS_PER_SEC lc)"

subsection \<open>Session records and the RTC memory\<close>

text \<open>
  \<^verbatim>\<open>SessionInfo\<close> and \<^verbatim>\<open>SessionState\<close> are types of the LoRaWAN library; the fields are
  those the sketch names (lines 580-593, 601-612, 739-745).  The views \<^verbatim>\<open>V1\<close> and \<^verbatim>\<open>V2\<close>
  of \<^verbatim>\<open>SessionInfo\<close> share them.  \<^verbatim>\<open>State_Rest\<close> stands for the part of \<^verbatim>\<open>SessionState\<close>
  the sketch does not name ("There is more in it...").
\<close>

record SessionInfo =
  Info_Tag :: byte
  Info_Size :: byte
  Info_Rsv2 :: byte
  Info_Rsv3 :: byte
  Info_NetID :: "32 word"
  Info_DevAddr :: "32 word"
  Info_NwkSKey :: "byte list"
  Info_AppSKey :: "byte list"

record SessionState =
  State_Tag :: byte
  State_Size :: byte
  State_Region :: byte
  State_LinkDR :: byte
  State_FCntUp :: "32 word"
  State_FCntDown :: "32 word"
  State_gpsTime :: "32 word"
  State_globalAvail :: "32 word"
  State_Rx2Frequency :: "32 word"
  State_PingFrequency :: "32 word"
  State_Country :: "16 word"
  State_LinkIntegrity :: "16 word"
  State_Rest :: "byte list"

record AbpProvisioningInfo =
  Abp_NwkSKey :: "byte list"
  Abp_AppSKey :: "byte list"
  Abp_DevAddr :: "32 word"
  Abp_NetID :: "32 word"
  Abp_FCntUp :: "32 word"
  Abp_FCntDown :: "32 word"

text \<open>The variables with \<^verbatim>\<open>RTC_DATA_ATTR\<close> (lines 336-342).\<close>

record rtc_mem =
  magicFlag1 :: "32 word"
  rtcSavedSessionState :: SessionState
  magicFlag2 :: "32 word"
  rtcSavedSessionInfo :: SessionInfo
  rtcSavedNExtraInfo :: nat
  rtcSavedExtraInfo :: "byte list"
  runtimeExpired :: bool

text \<open>
  \<^verbatim>\<open>memcpy(dst, src, n)\<close> on byte arrays: the first \<open>n\<close> bytes of \<open>dst\<close> are replaced by
  the first \<open>n\<close> bytes of \<open>src\<close>, the rest of \<open>dst\<close> stays.  (C requires both arrays to
  hold at least \<open>n\<close> bytes.)
\<close>

definition memcpy :: "byte list \<Rightarrow> byte list \<Rightarrow> nat \<Rightarrow> byte list" where
  "memcpy dst src n = take n src @ drop n dst"

text \<open>\<^verbatim>\<open>cMyLoRaWAN::NetSaveSessionInfo\<close> (lines 620-636).\<close>

definition NetSaveSessionInfo ::
  "SessionInfo \<Rightarrow> byte list \<Rightarrow> nat \<Rightarrow> rtc_mem \<Rightarrow> rtc_mem" where
  "NetSaveSessionInfo Info pExtraInfo nExtraInfo m =
     (if nExtraInfo > EXTRA_INFO_MEM_SIZE then m
      else m\<lparr> rtcSavedSessionInfo := Info,
              rtcSavedNExtraInfo := nExtraInfo,
              rtcSavedExtraInfo := memcpy (rtcSavedExtraInfo m) pExtraInfo nExtraInfo,
              magicFlag2 := MAGIC2 \<rparr>)"

text \<open>\<^verbatim>\<open>cMyLoRaWAN::NetSaveSessionState\<close> (lines 692-700).\<close>

definition NetSaveSessionState :: "SessionState \<Rightarrow> rtc_mem \<Rightarrow> rtc_mem" where
  "NetSaveSessionState State m = m\<lparr> rtcSavedSessionState := State, magicFlag1 := MAGIC1 \<rparr>"

text \<open>
  \<^verbatim>\<open>cMyLoRaWAN::NetGetSessionState\<close> (lines 704-717).  \<open>State\<close> is the caller's object the
  reference parameter is bound to; the result is the return value and that object after the
  call.
\<close>

definition NetGetSessionState :: "rtc_mem \<Rightarrow> SessionState \<Rightarrow> bool \<times> SessionState" where
  "NetGetSessionState m State =
     (if magicFlag1 m = MAGIC1 then (True, rtcSavedSessionState m) else (False, State))"

text \<open>
  \<^verbatim>\<open>cMyLoRaWAN::GetAbpProvisioningInfo\<close> (lines 721-761).  \<open>state0\<close> is the content of the
  uninitialised local \<^verbatim>\<open>SessionState state\<close>, \<open>AbpInfo\<close> the caller's object behind
  \<^verbatim>\<open>pAbpInfo\<close>; the result is the return value and that object after the call.
\<close>

definition GetAbpProvisioningInfo ::
  "rtc_mem \<Rightarrow> SessionState \<Rightarrow> AbpProvisioningInfo \<Rightarrow> bool \<times> AbpProvisioningInfo" where
  "GetAbpProvisioningInfo m state0 AbpInfo =
     (if magicFlag1 m \<noteq> MAGIC1 \<or> magicFlag2 m \<noteq> MAGIC2 then (False, AbpInfo)
      else
        let a1 = AbpInfo\<lparr> Abp_DevAddr := Info_DevAddr (rtcSavedSessionInfo m) \<rparr>;
            a2 = a1\<lparr> Abp_NetID := Info_NetID (rtcSavedSessionInfo m) \<rparr>;
            a3 = a2\<lparr> Abp_NwkSKey :=
                   memcpy (Abp_NwkSKey a2) (Info_NwkSKey (rtcSavedSessionInfo m)) 16 \<rparr>;
            a4 = a3\<lparr> Abp_AppSKey :=
                   memcpy (Abp_AppSKey a3) (Info_AppSKey (rtcSavedSessionInfo m)) 16 \<rparr>;
            state = snd (NetGetSessionState m state0);
            a5 = a4\<lparr> Abp_FCntUp := State_FCntUp state \<rparr>;
            a6 = a5\<lparr> Abp_FCntDown := State_FCntDown state \<rparr>
        in (True, a6))"

subsection \<open>Sensor readings and the payload encoder\<close>

text \<open>
  The sketch computes with \<^verbatim>\<open>float\<close> values.  Their type is the parameter \<open>'f\<close>, and the
  floating-point operations the sketch applies to them are parameters too: the comparison
  \<^verbatim>\<open>!=\<close>, the conversion of a literal, \<^verbatim>\<open>x/100.0\<close> on a raw reading, and
  \<^verbatim>\<open>(uint8_t)(x+0.5)\<close>.  \<open>DEVICE_DISCONNECTED_C\<close> is a constant of the OneWire temperature
  library.
\<close>

record 'f float_ops =
  DEVICE_DISCONNECTED_C :: 'f
  float_neq :: "'f \<Rightarrow> 'f \<Rightarrow> bool"
  float_lit :: "int \<Rightarrow> 'f"
  div_100 :: "int \<Rightarrow> 'f"
  round_uint8 :: "'f \<Rightarrow> byte"

text \<open>
  Modelled from the spec: the writers of the serialization library (\<^verbatim>\<open>LoraEncoder\<close>, under
  \<^verbatim>\<open>src/LoRa_Serialization\<close>, not among the sources).  The spec calls the encoder a pure,
  order-sensitive serialization of fixed-size fields; each writer is therefore a function
  from the value to the bytes it appends.  The byte order inside a field is not fixed by
  the spec, so the multi-byte writers are parameters.
\<close>

record 'f LoraEncoder =
  writeUint32 :: "32 word \<Rightarrow> byte list"
  writeUint16 :: "16 word \<Rightarrow> byte list"
  writeTemperature :: "'f \<Rightarrow> byte list"
  writeRawFloat :: "'f \<Rightarrow> byte list"

text \<open>
  Modelled from the spec: "Boolean status flags are packed into a single bitmap byte,
  most-significant-bit-first in declaration order".
\<close>

definition writeBitmap ::
  "bool \<Rightarrow> bool \<Rightarrow> bool \<Rightarrow> bool \<Rightarrow> bool \<Rightarrow> bool \<Rightarrow> bool \<Rightarrow> bool \<Rightarrow> byte list" where
  "writeBitmap a b c d e f g h =
     [(if a then 128 else 0) OR (if b then 64 else 0) OR (if c then 32 else 0) OR
      (if d then 16 else 0) OR (if e then 8 else 0) OR (if f then 4 else 0) OR
      (if g then 2 else 0) OR (if h then 1 else 0)]"

text \<open>Modelled from the spec: a one-byte field is the byte itself.\<close>

definition writeUint8 :: "byte \<Rightarrow> byte list" where
  "writeUint8 x = [x]"

text \<open>The members of the global \<^verbatim>\<open>weatherSensor\<close> that \<^verbatim>\<open>doUplink\<close> reads.\<close>

record 'f WeatherSensor =
  sensor_id :: "32 word"
  temp_c :: 'f
  humidity :: byte
  wind_gust_meter_sec :: 'f
  wind_avg_meter_sec :: 'f
  wind_direction_deg :: 'f
  wind_gust_meter_sec_fp1 :: "16 word"
  wind_avg_meter_sec_fp1 :: "16 word"
  wind_direction_deg_fp1 :: "16 word"
  rain_mm :: 'f
  data_ok :: bool
  battery_ok :: bool

text \<open>
  What one call of \<^verbatim>\<open>doUplink\<close> obtains from outside the sketch: \<^verbatim>\<open>LMIC.opmode\<close>, the
  weather sensor object, the value \<^verbatim>\<open>temp_sensors.getTempCByIndex(0)\<close> yields inside
  \<^verbatim>\<open>getTemperature()\<close>, the results of \<^verbatim>\<open>getVoltage()\<close> and \<^verbatim>\<open>getVoltage(adc3, ...)\<close>, the
  entry \<^verbatim>\<open>miThermometer.data[0]\<close> after the scan, and the return value of
  \<^verbatim>\<open>myLoRaWAN.SendBuffer\<close>.
\<close>

record 'f uplink_env =
  LMIC_opmode :: "16 word"
  weatherSensor :: "'f WeatherSensor"
  getTempCByIndex :: 'f
  getVoltage :: "16 word"
  getVoltage_adc3 :: "16 word"
  mi_valid :: bool
  mi_temperature :: int
  mi_humidity :: int
  SendBuffer_ok :: bool

text \<open>
  Lines 920-1010 of \<^verbatim>\<open>doUplink\<close>: the bytes the encoder writes, in the order of the calls.
  \<open>expired\<close> is the RTC variable \<^verbatim>\<open>runtimeExpired\<close>, \<open>water\<close> the value the local
  \<^verbatim>\<open>water_temp_c\<close> was initialised with at line 918.
\<close>

definition uplink_payload ::
  "build_cfg \<Rightarrow> 'f float_ops \<Rightarrow> 'f LoraEncoder \<Rightarrow> bool \<Rightarrow> 'f \<Rightarrow> 'f uplink_env \<Rightarrow> byte list"
  where
  "uplink_payload cfg fo enc expired water env =
     (let ws = weatherSensor env;
          water_temp_c =
            (if float_neq fo water (DEVICE_DISCONNECTED_C fo)
             then water else float_lit fo (- 30));
          mithermometer_valid = (MITHERMOMETER_EN cfg \<and> mi_valid env);
          indoor_temp_c =
            (if mi_valid env then div_100 fo (mi_temperature env) else float_lit fo (- 30));
          indoor_humidity =
            (if mi_valid env then div_100 fo (mi_humidity env) else float_lit fo 0)
      in (if SENSORID_EN cfg then writeUint32 enc (sensor_id ws) else []) @
         writeBitmap False False False False expired mithermometer_valid
           (data_ok ws) (battery_ok ws) @
         writeTemperature enc (temp_c ws) @
         writeUint8 (humidity ws) @
         (if ENCODE_AS_FLOAT cfg
          then writeRawFloat enc (wind_gust_meter_sec ws) @
               writeRawFloat enc (wind_avg_meter_sec ws) @
               writeRawFloat enc (wind_direction_deg ws)
          else writeUint16 enc (wind_gust_meter_sec_fp1 ws) @
               writeUint16 enc (wind_avg_meter_sec_fp1 ws) @
               writeUint16 enc (wind_direction_deg_fp1 ws)) @
         writeRawFloat enc (rain_mm ws) @
         (if ADC_EN cfg then writeUint16 enc (getVoltage env) else []) @
         (if PIN_ADC3_IN cfg then writeUint16 enc (getVoltage_adc3 env) else []) @
         writeTemperature enc water_temp_c @
         (if MITHERMOMETER_EN cfg
          then writeTemperature enc indoor_temp_c @
               writeUint8 (round_uint8 fo indoor_humidity)
          else []))"

subsection \<open>The sensor object and the state of the sketch\<close>

text \<open>The private members of \<^verbatim>\<open>cSensor\<close> (lines 298-301).\<close>

record cSensor =
  m_fUplinkRequest :: bool
  m_fBusy :: bool
  m_uplinkPeriodMs :: "32 word"
  m_tReference :: "32 word"

text \<open>
  \<^verbatim>\<open>ESP.deepSleep(us)\<close> does not return: the processor is powered down for \<open>us\<close>
  microseconds and restarts.
\<close>

datatype power = Awake | DeepSleep nat

text \<open>
  Where the behaviour of a call is undefined and the model stops: the division
  \<^verbatim>\<open>deltaT / m_uplinkPeriodMs\<close> with a zero period, an encoder that writes past the end
  of \<^verbatim>\<open>loraData\<close>, and control that reaches the end of a function with a return type
  without a \<^verbatim>\<open>return\<close> statement.
\<close>

datatype fault = IntegerDivideByZero | BufferOverrun | MissingReturn

text \<open>
  The globals of the sketch.  \<open>lorawan_shutdown\<close> records that \<^verbatim>\<open>myLoRaWAN.Shutdown()\<close> was
  called, \<open>sent\<close> the buffers \<^verbatim>\<open>SendBuffer\<close> accepted, oldest first.
\<close>

record machine =
  rtc :: rtc_mem
  mySensor :: cSensor
  loraData :: "byte list"
  sleepTimeout :: "32 word"
  lorawan_shutdown :: bool
  power :: power
  sent :: "byte list list"

text \<open>
  The state after a reset: static storage is zero, the RTC memory holds what it held.
\<close>

definition boot :: "rtc_mem \<Rightarrow> machine" where
  "boot r = \<lparr> rtc = r,
     mySensor = \<lparr> m_fUplinkRequest = False, m_fBusy = False, m_uplinkPeriodMs = 0,
                  m_tReference = 0 \<rparr>,
     loraData = replicate PAYLOAD_SIZE 0, sleepTimeout = 0, lorawan_shutdown = False,
     power = Awake, sent = [] \<rparr>"

subsection \<open>Scheduler and uplink\<close>

text \<open>
  \<^verbatim>\<open>bool cSensor::uplinkRequest(void)\<close> (lines 272-274): the body assigns
  \<^verbatim>\<open>m_fUplinkRequest = true\<close> and ends without a \<^verbatim>\<open>return\<close> statement.
\<close>

definition uplinkRequest :: "cSensor \<Rightarrow> fault + cSensor" where
  "uplinkRequest c = (let c' = c\<lparr> m_fUplinkRequest := True \<rparr> in Inl MissingReturn)"

text \<open>
  \<^verbatim>\<open>float cSensor::getTemperature(void)\<close> (lines 864-883): the body requests the
  temperatures, reads \<^verbatim>\<open>tempC\<close> from the first sensor and ends without a \<^verbatim>\<open>return\<close>
  statement.
\<close>

definition getTemperature :: "'f \<Rightarrow> fault + 'f" where
  "getTemperature tempC = Inl MissingReturn"

text \<open>
  \<^verbatim>\<open>cSensor::setup\<close> (lines 770-801): the assignments to the members; \<open>tNow\<close> is
  \<^verbatim>\<open>millis()\<close>.  The rest of the function initialises the sensor libraries.
\<close>

definition cSensor_setup :: "32 word \<Rightarrow> 32 word \<Rightarrow> cSensor \<Rightarrow> cSensor" where
  "cSensor_setup uplinkPeriodMs tNow c =
     c\<lparr> m_uplinkPeriodMs := uplinkPeriodMs, m_tReference := tNow \<rparr>"

text \<open>
  The first half of \<^verbatim>\<open>cSensor::loop\<close> (lines 805-815), on unsigned 32-bit values; \<open>tNow\<close>
  is \<^verbatim>\<open>millis()\<close>.
\<close>

definition loop_schedule :: "32 word \<Rightarrow> cSensor \<Rightarrow> fault + cSensor" where
  "loop_schedule tNow c =
     (let deltaT = tNow - m_tReference c in
      if deltaT \<ge> m_uplinkPeriodMs c then
        if m_uplinkPeriodMs c = 0 then Inl IntegerDivideByZero
        else
          let advance = deltaT div m_uplinkPeriodMs c
          in Inr (c\<lparr> m_fUplinkRequest := True,
                     m_tReference := m_tReference c + advance * m_uplinkPeriodMs c \<rparr>)
      else Inr c)"

text \<open>
  \<^verbatim>\<open>doUplink\<close> from line 920 to the call of \<^verbatim>\<open>SendBuffer\<close> (line 1013): the encoder writes
  the payload from the start of \<^verbatim>\<open>loraData\<close>, then \<^verbatim>\<open>m_fBusy\<close> is set.  The result is the
  state in which \<^verbatim>\<open>SendBuffer\<close> is called.
\<close>

definition uplink_prepare ::
  "build_cfg \<Rightarrow> 'f float_ops \<Rightarrow> 'f LoraEncoder \<Rightarrow> 'f \<Rightarrow> 'f uplink_env \<Rightarrow> machine
     \<Rightarrow> fault + machine" where
  "uplink_prepare cfg fo enc water env s =
     (let bytes = uplink_payload cfg fo enc (runtimeExpired (rtc s)) water env in
      if length bytes > length (loraData s) then Inl BufferOverrun
      else Inr (s\<lparr> loraData := memcpy (loraData s) bytes (length bytes),
                   mySensor := (mySensor s)\<lparr> m_fBusy := True \<rparr> \<rparr>))"

text \<open>
  The call \<^verbatim>\<open>myLoRaWAN.SendBuffer(loraData, sizeof(loraData), ...)\<close> and the branch on its
  result (lines 1015-1029): an accepted buffer is in flight, a rejected one resets
  \<^verbatim>\<open>m_fBusy\<close>.
\<close>

definition uplink_send :: "bool \<Rightarrow> machine \<Rightarrow> machine" where
  "uplink_send accepted s =
     (if accepted then s\<lparr> sent := sent s @ [loraData s] \<rparr>
      else s\<lparr> mySensor := (mySensor s)\<lparr> m_fBusy := False \<rparr> \<rparr>)"

text \<open>
  \<^verbatim>\<open>doUplink\<close> after the initialisation of \<^verbatim>\<open>water_temp_c\<close> (lines 920-1029), for the value
  \<open>water\<close> of that local.
\<close>

definition doUplink_rest ::
  "build_cfg \<Rightarrow> 'f float_ops \<Rightarrow> 'f LoraEncoder \<Rightarrow> 'f \<Rightarrow> 'f uplink_env \<Rightarrow> machine
     \<Rightarrow> fault + machine" where
  "doUplink_rest cfg fo enc water env s =
     (case uplink_prepare cfg fo enc water env s of
        Inl e \<Rightarrow> Inl e
      | Inr s' \<Rightarrow> Inr (uplink_send (SendBuffer_ok env) s'))"

text \<open>
  \<^verbatim>\<open>cSensor::doUplink\<close> (lines 889-1029).  After the two checks the first statement is
  \<^verbatim>\<open>float water_temp_c = getTemperature();\<close> (line 918).
\<close>

definition doUplink ::
  "build_cfg \<Rightarrow> lib_consts \<Rightarrow> 'f float_ops \<Rightarrow> 'f LoraEncoder \<Rightarrow> 'f uplink_env \<Rightarrow> machine
     \<Rightarrow> fault + machine" where
  "doUplink cfg lc fo enc env s =
     (if m_fBusy (mySensor s) then Inr s
      else if LMIC_opmode env AND (OP_POLL lc OR OP_TXDATA lc OR OP_TXRXPEND lc) \<noteq> 0
      then Inr s
      else case getTemperature (getTempCByIndex env) of
             Inl e \<Rightarrow> Inl e
           | Inr water_temp_c \<Rightarrow> doUplink_rest cfg fo enc water_temp_c env s)"

text \<open>The completion function passed to \<^verbatim>\<open>SendBuffer\<close> (lines 1018-1021).\<close>

definition tx_done :: "bool \<Rightarrow> machine \<Rightarrow> machine" where
  "tx_done fSuccess s = s\<lparr> mySensor := (mySensor s)\<lparr> m_fBusy := False \<rparr> \<rparr>"

text \<open>\<^verbatim>\<open>cSensor::loop\<close> (lines 803-822).\<close>

definition cSensor_loop ::
  "build_cfg \<Rightarrow> lib_consts \<Rightarrow> 'f float_ops \<Rightarrow> 'f LoraEncoder \<Rightarrow> 32 word \<Rightarrow> 'f uplink_env
     \<Rightarrow> machine \<Rightarrow> fault + machine" where
  "cSensor_loop cfg lc fo enc tNow env s =
     (case loop_schedule tNow (mySensor s) of
        Inl e \<Rightarrow> Inl e
      | Inr c \<Rightarrow>
          if m_fUplinkRequest c
          then doUplink cfg lc fo enc env (s\<lparr> mySensor := c\<lparr> m_fUplinkRequest := False \<rparr> \<rparr>)
          else Inr (s\<lparr> mySensor := c \<rparr>))"

subsection \<open>Wake cycle: setup, join, completion, forced sleep\<close>

text \<open>
  \<^verbatim>\<open>setup()\<close> up to line 458: the deadline and the sensor object (default period
  \<^verbatim>\<open>6 * 60 * 1000\<close>); \<open>tNow\<close> is \<^verbatim>\<open>millis()\<close> inside \<^verbatim>\<open>mySensor.setup()\<close>.  The result is
  the state in which \<^verbatim>\<open>mySensor.uplinkRequest()\<close> is called at line 460.
\<close>

definition setup_init :: "lib_consts \<Rightarrow> 32 word \<Rightarrow> machine \<Rightarrow> machine" where
  "setup_init lc tNow s =
     (let s1 = s\<lparr> sleepTimeout := sec2osticks lc SLEEP_TIMEOUT_INITIAL \<rparr>
      in s1\<lparr> mySensor := cSensor_setup (6 * 60 * 1000) tNow (mySensor s1) \<rparr>)"

text \<open>\<^verbatim>\<open>setup()\<close> (lines 435-461).\<close>

definition sketch_setup :: "lib_consts \<Rightarrow> 32 word \<Rightarrow> machine \<Rightarrow> fault + machine" where
  "sketch_setup lc tNow s =
     (let s2 = setup_init lc tNow s
      in case uplinkRequest (mySensor s2) of
           Inl e \<Rightarrow> Inl e
         | Inr c \<Rightarrow> Inr (s2\<lparr> mySensor := c \<rparr>))"

text \<open>\<^verbatim>\<open>cMyLoRaWAN::NetJoin\<close> (lines 556-561); \<open>now\<close> is \<^verbatim>\<open>os_getTime()\<close>.\<close>

definition NetJoin :: "lib_consts \<Rightarrow> 32 word \<Rightarrow> machine \<Rightarrow> machine" where
  "NetJoin lc now s = s\<lparr> sleepTimeout := now + sec2osticks lc SLEEP_TIMEOUT_JOINED \<rparr>"

text \<open>\<^verbatim>\<open>cMyLoRaWAN::NetTxComplete\<close> (lines 565-574).\<close>

definition NetTxComplete :: "build_cfg \<Rightarrow> machine \<Rightarrow> machine" where
  "NetTxComplete cfg s =
     (if SLEEP_EN cfg
      then s\<lparr> lorawan_shutdown := True, power := DeepSleep (SLEEP_INTERVAL * 1000000) \<rparr>
      else s)"

text \<open>
  The \<^verbatim>\<open>FORCE_SLEEP\<close> block of \<^verbatim>\<open>loop()\<close> (lines 475-485); \<open>now\<close> is \<^verbatim>\<open>os_getTime()\<close>, compared
  as a signed 32-bit value.
\<close>

definition force_sleep :: "build_cfg \<Rightarrow> 32 word \<Rightarrow> machine \<Rightarrow> machine" where
  "force_sleep cfg now s =
     (if FORCE_SLEEP cfg \<and> sleepTimeout s <s now
      then s\<lparr> rtc := (rtc s)\<lparr> runtimeExpired := True, magicFlag1 := 0, magicFlag2 := 0 \<rparr>,
              lorawan_shutdown := True,
              power := DeepSleep (SLEEP_INTERVAL * 1000000) \<rparr>
      else s)"

text \<open>
  \<^verbatim>\<open>loop()\<close> (lines 469-486) without the library's own polling, whose calls into the sketch
  are the events below.
\<close>

definition sketch_loop ::
  "build_cfg \<Rightarrow> lib_consts \<Rightarrow> 'f float_ops \<Rightarrow> 'f LoraEncoder \<Rightarrow> 32 word \<Rightarrow> 32 word
     \<Rightarrow> 'f uplink_env \<Rightarrow> machine \<Rightarrow> fault + machine" where
  "sketch_loop cfg lc fo enc tNow now env s =
     (case cSensor_loop cfg lc fo enc tNow env s of
        Inl e \<Rightarrow> Inl e
      | Inr s' \<Rightarrow> Inr (force_sleep cfg now s'))"

text \<open>
  Everything that runs code of the sketch after \<^verbatim>\<open>setup()\<close>: an iteration of \<^verbatim>\<open>loop()\<close>, or
  a call by the LoRaWAN library of a method the sketch overrides or of the completion
  function.
\<close>

datatype 'f event =
    Loop "32 word" "32 word" "'f uplink_env"
  | TxDone bool
  | Joined "32 word"
  | TxComplete
  | SaveInfo SessionInfo "byte list" nat
  | SaveState SessionState

fun step ::
  "build_cfg \<Rightarrow> lib_consts \<Rightarrow> 'f float_ops \<Rightarrow> 'f LoraEncoder \<Rightarrow> 'f event \<Rightarrow> machine
     \<Rightarrow> fault + machine" where
  "step cfg lc fo enc (Loop tNow now env) s = sketch_loop cfg lc fo enc tNow now env s"
| "step cfg lc fo enc (TxDone ok) s = Inr (tx_done ok s)"
| "step cfg lc fo enc (Joined now) s = Inr (NetJoin lc now s)"
| "step cfg lc fo enc TxComplete s = Inr (NetTxComplete cfg s)"
| "step cfg lc fo enc (SaveInfo Info pExtraInfo nExtraInfo) s =
     Inr (s\<lparr> rtc := NetSaveSessionInfo Info pExtraInfo nExtraInfo (rtc s) \<rparr>)"
| "step cfg lc fo enc (SaveState State) s =
     Inr (s\<lparr> rtc := NetSaveSessionState State (rtc s) \<rparr>)"

subsection \<open>Well-formed values and example values\<close>

text \<open>
  The key arrays have the size of their C declarations, 16 bytes each.
\<close>

definition wf_SessionInfo :: "SessionInfo \<Rightarrow> bool" where
  "wf_SessionInfo i = (length (Info_NwkSKey i) = 16 \<and> length (Info_AppSKey i) = 16)"

definition wf_AbpInfo :: "AbpProvisioningInfo \<Rightarrow> bool" where
  "wf_AbpInfo a = (length (Abp_NwkSKey a) = 16 \<and> length (Abp_AppSKey a) = 16)"

text \<open>Both validity markers hold their constants.\<close>

definition both_valid :: "rtc_mem \<Rightarrow> bool" where
  "both_valid m = (magicFlag1 m = MAGIC1 \<and> magicFlag2 m = MAGIC2)"

text \<open>Example values, used where a statement is evaluated at a concrete input.\<close>

definition ex_info :: SessionInfo where
  "ex_info = \<lparr> Info_Tag = 2, Info_Size = 44, Info_Rsv2 = 0, Info_Rsv3 = 0,
     Info_NetID = 19, Info_DevAddr = 0x260B1234,
     Info_NwkSKey = [1, 2, 3, 4, 5, 6, 7, 8, 9, 10, 11, 12, 13, 14, 15, 16],
     Info_AppSKey = [16, 15, 14, 13, 12, 11, 10, 9, 8, 7, 6, 5, 4, 3, 2, 1] \<rparr>"

definition ex_state :: SessionState where
  "ex_state = \<lparr> State_Tag = 1, State_Size = 208, State_Region = 1, State_LinkDR = 5,
     State_FCntUp = 42, State_FCntDown = 7, State_gpsTime = 0, State_globalAvail = 0,
     State_Rx2Frequency = 869525000, State_PingFrequency = 0, State_Country = 0,
     State_LinkIntegrity = 0, State_Rest = [] \<rparr>"

definition zero_info :: SessionInfo where
  "zero_info = \<lparr> Info_Tag = 0, Info_Size = 0, Info_Rsv2 = 0, Info_Rsv3 = 0,
     Info_NetID = 0, Info_DevAddr = 0, Info_NwkSKey = replicate 16 0,
     Info_AppSKey = replicate 16 0 \<rparr>"

definition zero_state :: SessionState where
  "zero_state = \<lparr> State_Tag = 0, State_Size = 0, State_Region = 0, State_LinkDR = 0,
     State_FCntUp = 0, State_FCntDown = 0, State_gpsTime = 0, State_globalAvail = 0,
     State_Rx2Frequency = 0, State_PingFrequency = 0, State_Country = 0,
     State_LinkIntegrity = 0, State_Rest = [] \<rparr>"

definition zero_abp :: AbpProvisioningInfo where
  "zero_abp = \<lparr> Abp_NwkSKey = replicate 16 0, Abp_AppSKey = replicate 16 0,
     Abp_DevAddr = 0, Abp_NetID = 0, Abp_FCntUp = 0, Abp_FCntDown = 0 \<rparr>"

text \<open>RTC memory after a power-up: nothing stored, both markers zero.\<close>

definition zero_rtc :: rtc_mem where
  "zero_rtc = \<lparr> magicFlag1 = 0, rtcSavedSessionState = zero_state, magicFlag2 = 0,
     rtcSavedSessionInfo = zero_info, rtcSavedNExtraInfo = 0,
     rtcSavedExtraInfo = replicate EXTRA_INFO_MEM_SIZE 0, runtimeExpired = False \<rparr>"

text \<open>RTC memory holding a saved session with two extra-info bytes.\<close>

definition ex_rtc :: rtc_mem where
  "ex_rtc = NetSaveSessionInfo ex_info [170, 187] 2 (NetSaveSessionState ex_state zero_rtc)"

text \<open>
  The LMIC values of the three operating-mode bits and of the tick rate (16 microseconds
  per tick), for the examples.
\<close>

definition lmic_consts :: lib_consts where
  "lmic_consts = \<lparr> OP_POLL = 0x10, OP_TXDATA = 0x08, OP_TXRXPEND = 0x80,
     OSTICKS_PER_SEC = 62500 \<rparr>"

text \<open>
  An example instance of the floating-point operations and of the encoder, on values in
  hundredths held as integers: little-endian integers, a 16-bit temperature.
\<close>

definition ex_float_ops :: "int float_ops" where
  "ex_float_ops = \<lparr> DEVICE_DISCONNECTED_C = - 12700, float_neq = (\<lambda>x y. x \<noteq> y),
     float_lit = (\<lambda>n. 100 * n), div_100 = (\<lambda>n. n),
     round_uint8 = (\<lambda>x. word_of_int ((x + 50) div 100)) \<rparr>"

definition le16 :: "16 word \<Rightarrow> byte list" where
  "le16 x = [ucast x, ucast (drop_bit 8 x)]"

definition le32 :: "32 word \<Rightarrow> byte list" where
  "le32 x = [ucast x, ucast (drop_bit 8 x), ucast (drop_bit 16 x), ucast (drop_bit 24 x)]"

definition ex_encoder :: "int LoraEncoder" where
  "ex_encoder = \<lparr> writeUint32 = le32, writeUint16 = le16,
     writeTemperature = (\<lambda>t. le16 (word_of_int t)),
     writeRawFloat = (\<lambda>v. le32 (word_of_int v)) \<rparr>"

definition ex_weather :: "int WeatherSensor" where
  "ex_weather = \<lparr> sensor_id = 0x39582376, temp_c = 2130, humidity = 55,
     wind_gust_meter_sec = 510, wind_avg_meter_sec = 240, wind_direction_deg = 18000,
     wind_gust_meter_sec_fp1 = 51, wind_avg_meter_sec_fp1 = 24,
     wind_direction_deg_fp1 = 1800, rain_mm = 1240, data_ok = True, battery_ok = True \<rparr>"

definition ex_env :: "int uplink_env" where
  "ex_env = \<lparr> LMIC_opmode = 0, weatherSensor = ex_weather, getTempCByIndex = 1875,
     getVoltage = 3300, getVoltage_adc3 = 4100, mi_valid = True, mi_temperature = 2210,
     mi_humidity = 4480, SendBuffer_ok = True \<rparr>"

text \<open>
  The state after a reset with a saved session when \<^verbatim>\<open>setup()\<close>, entered at 5000 ms,
  reaches line 460.
\<close>

definition ex_machine :: machine where
  "ex_machine = setup_init lmic_consts 5000 (boot ex_rtc)"

text \<open>The same state with an uplink in flight.\<close>

definition ex_busy :: machine where
  "ex_busy = ex_machine\<lparr> mySensor := (mySensor ex_machine)\<lparr> m_fBusy := True \<rparr> \<rparr>"

section \<open>Properties\<close>

subsection \<open>Auxiliary facts\<close>

lemma MAGIC1_value: "MAGIC1 = 0x6D006331"
  by (simp add: MAGIC1_def)

lemma MAGIC2_value: "MAGIC2 = 0x6D006332"
  by (simp add: MAGIC2_def)

lemma MAGIC_distinct: "MAGIC1 \<noteq> MAGIC2" "MAGIC1 \<noteq> 0" "MAGIC2 \<noteq> 0"
  by (simp_all add: MAGIC1_value MAGIC2_value)

lemma memcpy_whole: "length src = n \<Longrightarrow> length dst = n \<Longrightarrow> memcpy dst src n = src"
  by (simp add: memcpy_def)

lemma wf_ex_info: "wf_SessionInfo ex_info"
  by (simp add: wf_SessionInfo_def ex_info_def)

lemma wf_zero_info: "wf_SessionInfo zero_info"
  by (simp add: wf_SessionInfo_def zero_info_def)

lemma wf_zero_abp: "wf_AbpInfo zero_abp"
  by (simp add: wf_AbpInfo_def zero_abp_def)

lemma zero_rtc_extra_length: "length (rtcSavedExtraInfo zero_rtc) = EXTRA_INFO_MEM_SIZE"
  by (simp add: zero_rtc_def)

lemma ex_rtc_fields:
  "magicFlag1 ex_rtc = MAGIC1" "magicFlag2 ex_rtc = MAGIC2"
  "rtcSavedSessionInfo ex_rtc = ex_info" "rtcSavedSessionState ex_rtc = ex_state"
  "rtcSavedNExtraInfo ex_rtc = 2" "length (rtcSavedExtraInfo ex_rtc) = EXTRA_INFO_MEM_SIZE"
  by (simp_all add: ex_rtc_def zero_rtc_def NetSaveSessionInfo_def NetSaveSessionState_def
      memcpy_def EXTRA_INFO_MEM_SIZE_def)

lemma zero_rtc_fields:
  "magicFlag1 zero_rtc = 0" "magicFlag2 zero_rtc = 0"
  by (simp_all add: zero_rtc_def)

subsection \<open>Persistent session store\<close>

text \<open>
  C2.  A call of \<^verbatim>\<open>NetSaveSessionInfo\<close> with an extra-info blob longer than the capacity
  of 64 bytes writes nothing: the RTC memory after the call is the RTC memory before it.
  A call with a blob within the capacity stores the info, the length and the marker
  \<open>MAGIC2\<close>, and the first \<open>nExtraInfo\<close> stored extra bytes are the blob.  The blob has
  \<open>nExtraInfo\<close> bytes and the store has its declared size.
\<close>

theorem NetSaveSessionInfo_capacity:
  assumes "length pExtraInfo = nExtraInfo"
    and "length (rtcSavedExtraInfo m) = EXTRA_INFO_MEM_SIZE"
  shows "EXTRA_INFO_MEM_SIZE = 64 \<and>
    (nExtraInfo > EXTRA_INFO_MEM_SIZE \<longrightarrow>
       NetSaveSessionInfo Info pExtraInfo nExtraInfo m = m) \<and>
    (nExtraInfo \<le> EXTRA_INFO_MEM_SIZE \<longrightarrow>
       NetSaveSessionInfo Info pExtraInfo nExtraInfo m =
         m\<lparr> rtcSavedSessionInfo := Info, rtcSavedNExtraInfo := nExtraInfo,
            rtcSavedExtraInfo := pExtraInfo @ drop nExtraInfo (rtcSavedExtraInfo m),
            magicFlag2 := MAGIC2 \<rparr> \<and>
       take nExtraInfo (rtcSavedExtraInfo (NetSaveSessionInfo Info pExtraInfo nExtraInfo m))
         = pExtraInfo \<and>
       length (rtcSavedExtraInfo (NetSaveSessionInfo Info pExtraInfo nExtraInfo m))
         = EXTRA_INFO_MEM_SIZE)"
  using assms by (simp add: NetSaveSessionInfo_def memcpy_def EXTRA_INFO_MEM_SIZE_def)

theorem NetSaveSessionInfo_capacity_witness:
  "NetSaveSessionInfo zero_info (replicate 65 1) 65 ex_rtc = ex_rtc \<and>
   rtcSavedSessionInfo (NetSaveSessionInfo zero_info (replicate 64 1) 64 ex_rtc) = zero_info \<and>
   take 64 (rtcSavedExtraInfo (NetSaveSessionInfo zero_info (replicate 64 1) 64 ex_rtc))
     = replicate 64 1 \<and>
   magicFlag2 (NetSaveSessionInfo zero_info [5] 1 zero_rtc) = MAGIC2 \<and>
   rtcSavedExtraInfo (NetSaveSessionInfo zero_info [5] 1 zero_rtc) = 5 # replicate 63 0"
proof -
  have a: "NetSaveSessionInfo zero_info (replicate 65 1) 65 ex_rtc = ex_rtc"
    using NetSaveSessionInfo_capacity [of "replicate 65 1" 65 ex_rtc zero_info]
    by (simp add: ex_rtc_fields EXTRA_INFO_MEM_SIZE_def)
  have b: "rtcSavedSessionInfo (NetSaveSessionInfo zero_info (replicate 64 1) 64 ex_rtc)
      = zero_info \<and>
    take 64 (rtcSavedExtraInfo (NetSaveSessionInfo zero_info (replicate 64 1) 64 ex_rtc))
      = replicate 64 1"
    using NetSaveSessionInfo_capacity [of "replicate 64 1" 64 ex_rtc zero_info]
    by (simp add: ex_rtc_fields EXTRA_INFO_MEM_SIZE_def)
  have c: "magicFlag2 (NetSaveSessionInfo zero_info [5] 1 zero_rtc) = MAGIC2 \<and>
    rtcSavedExtraInfo (NetSaveSessionInfo zero_info [5] 1 zero_rtc) = 5 # replicate 63 0"
    using NetSaveSessionInfo_capacity [of "[5]" 1 zero_rtc zero_info]
    by (simp add: EXTRA_INFO_MEM_SIZE_def zero_rtc_def numeral_eq_Suc)
  from a b c show ?thesis by simp
qed

text \<open>
  C3.  \<^verbatim>\<open>GetAbpProvisioningInfo\<close> reports success exactly when both markers hold their
  constants.  Then it returns the stored device address, network id and the two session
  keys together with the frame counters of the stored session state, whatever the
  uninitialised local held.  If either marker differs it returns failure and leaves the
  caller's object as it was.  The key arrays have 16 bytes.
\<close>

theorem GetAbpProvisioningInfo_both_markers:
  assumes "wf_SessionInfo (rtcSavedSessionInfo m)" and "wf_AbpInfo AbpInfo"
  shows "(fst (GetAbpProvisioningInfo m state0 AbpInfo) \<longleftrightarrow>
            magicFlag1 m = MAGIC1 \<and> magicFlag2 m = MAGIC2) \<and>
         (magicFlag1 m = MAGIC1 \<and> magicFlag2 m = MAGIC2 \<longrightarrow>
            snd (GetAbpProvisioningInfo m state0 AbpInfo) =
              \<lparr> Abp_NwkSKey = Info_NwkSKey (rtcSavedSessionInfo m),
                Abp_AppSKey = Info_AppSKey (rtcSavedSessionInfo m),
                Abp_DevAddr = Info_DevAddr (rtcSavedSessionInfo m),
                Abp_NetID = Info_NetID (rtcSavedSessionInfo m),
                Abp_FCntUp = State_FCntUp (rtcSavedSessionState m),
                Abp_FCntDown = State_FCntDown (rtcSavedSessionState m) \<rparr>) \<and>
         (magicFlag1 m \<noteq> MAGIC1 \<or> magicFlag2 m \<noteq> MAGIC2 \<longrightarrow>
            GetAbpProvisioningInfo m state0 AbpInfo = (False, AbpInfo))"
  using assms
  by (simp add: GetAbpProvisioningInfo_def NetGetSessionState_def Let_def memcpy_whole
      wf_SessionInfo_def wf_AbpInfo_def)

theorem GetAbpProvisioningInfo_both_markers_witness:
  "fst (GetAbpProvisioningInfo ex_rtc zero_state zero_abp) \<and>
   Abp_DevAddr (snd (GetAbpProvisioningInfo ex_rtc zero_state zero_abp)) = 0x260B1234 \<and>
   Abp_FCntUp (snd (GetAbpProvisioningInfo ex_rtc zero_state zero_abp)) = 42 \<and>
   Abp_NwkSKey (snd (GetAbpProvisioningInfo ex_rtc zero_state zero_abp))
     = [1, 2, 3, 4, 5, 6, 7, 8, 9, 10, 11, 12, 13, 14, 15, 16] \<and>
   GetAbpProvisioningInfo zero_rtc zero_state zero_abp = (False, zero_abp) \<and>
   GetAbpProvisioningInfo (ex_rtc\<lparr> magicFlag2 := 0 \<rparr>) ex_state zero_abp = (False, zero_abp)"
proof -
  have a: "fst (GetAbpProvisioningInfo ex_rtc zero_state zero_abp) \<and>
     snd (GetAbpProvisioningInfo ex_rtc zero_state zero_abp) =
       \<lparr> Abp_NwkSKey = Info_NwkSKey ex_info, Abp_AppSKey = Info_AppSKey ex_info,
         Abp_DevAddr = Info_DevAddr ex_info, Abp_NetID = Info_NetID ex_info,
         Abp_FCntUp = State_FCntUp ex_state, Abp_FCntDown = State_FCntDown ex_state \<rparr>"
    using GetAbpProvisioningInfo_both_markers [of ex_rtc zero_abp zero_state]
    by (simp add: ex_rtc_fields wf_ex_info wf_zero_abp)
  have b: "GetAbpProvisioningInfo zero_rtc zero_state zero_abp = (False, zero_abp)"
    using GetAbpProvisioningInfo_both_markers [of zero_rtc zero_abp zero_state] MAGIC_distinct
    by (simp add: zero_rtc_def wf_zero_info wf_zero_abp)
  have c: "GetAbpProvisioningInfo (ex_rtc\<lparr> magicFlag2 := 0 \<rparr>) ex_state zero_abp
      = (False, zero_abp)"
    using GetAbpProvisioningInfo_both_markers [of "ex_rtc\<lparr> magicFlag2 := 0 \<rparr>" zero_abp ex_state]
      MAGIC_distinct
    by (simp add: ex_rtc_fields wf_ex_info wf_zero_abp)
  from a b c show ?thesis by (simp add: ex_info_def ex_state_def)
qed

text \<open>
  C5, as stated, fails: no enabled operation of the sketch returns the stored extra-info
  bytes (\<^verbatim>\<open>GetSavedSessionInfo\<close> is compiled out), so what the load operations return is
  the same for two saves that differ in the extra-info blob.
\<close>

theorem load_ignores_extra_info:
  "GetAbpProvisioningInfo
     (NetSaveSessionInfo ex_info [1] 1 (NetSaveSessionState ex_state zero_rtc))
     zero_state zero_abp =
   GetAbpProvisioningInfo
     (NetSaveSessionInfo ex_info [2] 1 (NetSaveSessionState ex_state zero_rtc))
     zero_state zero_abp \<and>
   NetGetSessionState
     (NetSaveSessionInfo ex_info [1] 1 (NetSaveSessionState ex_state zero_rtc)) zero_state =
   NetGetSessionState
     (NetSaveSessionInfo ex_info [2] 1 (NetSaveSessionState ex_state zero_rtc)) zero_state \<and>
   take 1 (rtcSavedExtraInfo
     (NetSaveSessionInfo ex_info [1] 1 (NetSaveSessionState ex_state zero_rtc))) \<noteq>
   take 1 (rtcSavedExtraInfo
     (NetSaveSessionInfo ex_info [2] 1 (NetSaveSessionState ex_state zero_rtc)))"
  by (simp add: GetAbpProvisioningInfo_def NetGetSessionState_def NetSaveSessionInfo_def
      NetSaveSessionState_def Let_def memcpy_def EXTRA_INFO_MEM_SIZE_def zero_rtc_def)

text \<open>
  C5, amended.  After \<^verbatim>\<open>NetSaveSessionState\<close> followed by \<^verbatim>\<open>NetSaveSessionInfo\<close> with a
  blob within the capacity, \<^verbatim>\<open>NetGetSessionState\<close> returns the saved state,
  \<^verbatim>\<open>GetAbpProvisioningInfo\<close> succeeds and returns the address, network id and keys of the
  saved info with the frame counters of the saved state, and the RTC memory holds the saved
  info, the blob in its first bytes, the blob's length, and both markers valid.
\<close>

theorem save_then_load_roundtrip:
  assumes "wf_SessionInfo Info" and "wf_AbpInfo AbpInfo"
    and "length pExtraInfo = nExtraInfo" and "nExtraInfo \<le> EXTRA_INFO_MEM_SIZE"
    and "length (rtcSavedExtraInfo m) = EXTRA_INFO_MEM_SIZE"
    and "m' = NetSaveSessionInfo Info pExtraInfo nExtraInfo (NetSaveSessionState State m)"
  shows "NetGetSessionState m' State0 = (True, State) \<and>
    GetAbpProvisioningInfo m' state0 AbpInfo =
      (True, \<lparr> Abp_NwkSKey = Info_NwkSKey Info, Abp_AppSKey = Info_AppSKey Info,
               Abp_DevAddr = Info_DevAddr Info, Abp_NetID = Info_NetID Info,
               Abp_FCntUp = State_FCntUp State, Abp_FCntDown = State_FCntDown State \<rparr>) \<and>
    rtcSavedSessionState m' = State \<and> rtcSavedSessionInfo m' = Info \<and>
    take nExtraInfo (rtcSavedExtraInfo m') = pExtraInfo \<and>
    rtcSavedNExtraInfo m' = nExtraInfo \<and> both_valid m'"
  using assms
  by (simp add: GetAbpProvisioningInfo_def NetGetSessionState_def NetSaveSessionInfo_def
      NetSaveSessionState_def Let_def memcpy_def wf_SessionInfo_def wf_AbpInfo_def
      both_valid_def)

theorem save_then_load_roundtrip_witness:
  "NetGetSessionState ex_rtc zero_state = (True, ex_state) \<and>
   GetAbpProvisioningInfo ex_rtc zero_state zero_abp =
     (True, \<lparr> Abp_NwkSKey = Info_NwkSKey ex_info, Abp_AppSKey = Info_AppSKey ex_info,
              Abp_DevAddr = 0x260B1234, Abp_NetID = 19, Abp_FCntUp = 42, Abp_FCntDown = 7 \<rparr>) \<and>
   take 2 (rtcSavedExtraInfo ex_rtc) = [170, 187] \<and> both_valid ex_rtc"
proof -
  have len: "length [170, 187 :: byte] = 2" and cap: "2 \<le> EXTRA_INFO_MEM_SIZE"
    by (simp_all add: EXTRA_INFO_MEM_SIZE_def)
  show ?thesis
    using save_then_load_roundtrip [OF wf_ex_info wf_zero_abp len cap zero_rtc_extra_length
        ex_rtc_def, of zero_state zero_state]
    by (simp add: ex_info_def ex_state_def)
qed

text \<open>
  C6, as stated, fails: with only the state marker overwritten the info marker is still
  valid, yet the only operation that returns stored info, \<^verbatim>\<open>GetAbpProvisioningInfo\<close>,
  reports failure.
\<close>

theorem state_marker_alone_blocks_info:
  "magicFlag2 (ex_rtc\<lparr> magicFlag1 := 0 \<rparr>) = MAGIC2 \<and>
   rtcSavedSessionInfo (ex_rtc\<lparr> magicFlag1 := 0 \<rparr>) = ex_info \<and>
   \<not> fst (GetAbpProvisioningInfo (ex_rtc\<lparr> magicFlag1 := 0 \<rparr>) zero_state zero_abp)"
  using MAGIC_distinct by (simp add: ex_rtc_fields GetAbpProvisioningInfo_def)

text \<open>
  C6, amended.  Starting from a store with both markers valid: overwriting only the info
  marker with another value makes \<^verbatim>\<open>GetAbpProvisioningInfo\<close> fail while
  \<^verbatim>\<open>NetGetSessionState\<close> still returns the stored state; overwriting only the state marker
  with another value makes \<^verbatim>\<open>NetGetSessionState\<close> fail and, since resuming needs both
  markers, \<^verbatim>\<open>GetAbpProvisioningInfo\<close> as well.  A failing call returns the caller's object
  unchanged, never the stored record.
\<close>

theorem marker_corruption:
  assumes "both_valid m" and "v \<noteq> MAGIC1" and "w \<noteq> MAGIC2"
  shows "NetGetSessionState (m\<lparr> magicFlag2 := w \<rparr>) State = (True, rtcSavedSessionState m) \<and>
    GetAbpProvisioningInfo (m\<lparr> magicFlag2 := w \<rparr>) state0 AbpInfo = (False, AbpInfo) \<and>
    NetGetSessionState (m\<lparr> magicFlag1 := v \<rparr>) State = (False, State) \<and>
    GetAbpProvisioningInfo (m\<lparr> magicFlag1 := v \<rparr>) state0 AbpInfo = (False, AbpInfo)"
  using assms
  by (simp add: both_valid_def NetGetSessionState_def GetAbpProvisioningInfo_def)

theorem marker_corruption_witness:
  "NetGetSessionState (ex_rtc\<lparr> magicFlag2 := 0 \<rparr>) zero_state = (True, ex_state) \<and>
   GetAbpProvisioningInfo (ex_rtc\<lparr> magicFlag2 := 0 \<rparr>) zero_state zero_abp = (False, zero_abp) \<and>
   NetGetSessionState (ex_rtc\<lparr> magicFlag1 := 0 \<rparr>) zero_state = (False, zero_state) \<and>
   GetAbpProvisioningInfo (ex_rtc\<lparr> magicFlag1 := 0 \<rparr>) zero_state zero_abp = (False, zero_abp)"
  using marker_corruption [of ex_rtc 0 0 zero_state zero_state zero_abp] MAGIC_distinct
  by (simp add: both_valid_def ex_rtc_fields)

subsection \<open>Uplink scheduler\<close>

lemma unat_div_mult_period:
  fixes d p :: "32 word"
  shows "unat ((d div p) * p) = (unat d div unat p) * unat p"
proof -
  have "unat (d div p) * unat p \<le> unat d"
    by (simp add: unat_div)
  also have "unat d < 2 ^ LENGTH(32)"
    by (rule unsigned_less)
  finally have "unat ((d div p) * p) = unat (d div p) * unat p"
    by (simp add: unat_mult_lem [THEN iffD1])
  then show ?thesis by (simp add: unat_div)
qed

lemma loop_schedule_due:
  assumes "m_uplinkPeriodMs c \<noteq> 0" and "m_uplinkPeriodMs c \<le> tNow - m_tReference c"
  shows "loop_schedule tNow c =
    Inr (c\<lparr> m_fUplinkRequest := True,
            m_tReference := m_tReference c +
              ((tNow - m_tReference c) div m_uplinkPeriodMs c) * m_uplinkPeriodMs c \<rparr>)"
  using assms by (simp add: loop_schedule_def Let_def)

lemma loop_schedule_not_due:
  assumes "tNow - m_tReference c < m_uplinkPeriodMs c"
  shows "loop_schedule tNow c = Inr c"
  using assms by (auto simp: loop_schedule_def Let_def)

lemma loop_schedule_busy:
  assumes "loop_schedule tNow c = Inr c'"
  shows "m_fBusy c' = m_fBusy c"
  using assms by (auto simp: loop_schedule_def Let_def split: if_splits)

text \<open>
  C4.  With a non-zero period: a tick whose elapsed time \<open>tNow - m_tReference\<close> (unsigned
  32-bit) reaches the period sets the request flag, advances the reference by
  \<open>elapsed div period\<close> whole periods and leaves the other members alone, and
  \<^verbatim>\<open>cSensor::loop\<close> then clears the flag and calls \<^verbatim>\<open>doUplink\<close> once; a tick below the
  period changes nothing in the sensor object.  With period 360000 and elapsed time 900000
  the reference advances by 720000.
\<close>

theorem loop_schedule_catch_up:
  assumes "m_uplinkPeriodMs (mySensor s) \<noteq> 0"
  shows "(m_uplinkPeriodMs (mySensor s) \<le> tNow - m_tReference (mySensor s) \<longrightarrow>
      (\<exists>c'. loop_schedule tNow (mySensor s) = Inr c' \<and> m_fUplinkRequest c' \<and>
        m_fBusy c' = m_fBusy (mySensor s) \<and>
        m_uplinkPeriodMs c' = m_uplinkPeriodMs (mySensor s) \<and>
        unat (m_tReference c' - m_tReference (mySensor s)) =
          (unat (tNow - m_tReference (mySensor s)) div unat (m_uplinkPeriodMs (mySensor s)))
            * unat (m_uplinkPeriodMs (mySensor s)) \<and>
        cSensor_loop cfg lc fo enc tNow env s =
          doUplink cfg lc fo enc env (s\<lparr> mySensor := c'\<lparr> m_fUplinkRequest := False \<rparr> \<rparr>))) \<and>
    (tNow - m_tReference (mySensor s) < m_uplinkPeriodMs (mySensor s) \<longrightarrow>
      loop_schedule tNow (mySensor s) = Inr (mySensor s)) \<and>
    (m_uplinkPeriodMs (mySensor s) = 360000 \<and> tNow - m_tReference (mySensor s) = 900000 \<longrightarrow>
      loop_schedule tNow (mySensor s) =
        Inr ((mySensor s)\<lparr> m_fUplinkRequest := True,
               m_tReference := m_tReference (mySensor s) + 720000 \<rparr>))"
proof (intro conjI impI)
  assume due: "m_uplinkPeriodMs (mySensor s) \<le> tNow - m_tReference (mySensor s)"
  let ?c = "mySensor s"
  let ?adv = "((tNow - m_tReference ?c) div m_uplinkPeriodMs ?c) * m_uplinkPeriodMs ?c"
  let ?c' = "?c\<lparr> m_fUplinkRequest := True, m_tReference := m_tReference ?c + ?adv \<rparr>"
  have sched: "loop_schedule tNow ?c = Inr ?c'"
    using assms due by (rule loop_schedule_due)
  have adv: "unat (m_tReference ?c' - m_tReference ?c) =
      (unat (tNow - m_tReference ?c) div unat (m_uplinkPeriodMs ?c)) * unat (m_uplinkPeriodMs ?c)"
    by (simp add: unat_div_mult_period)
  have loop: "cSensor_loop cfg lc fo enc tNow env s =
      doUplink cfg lc fo enc env (s\<lparr> mySensor := ?c'\<lparr> m_fUplinkRequest := False \<rparr> \<rparr>)"
    by (simp add: cSensor_loop_def sched)
  show "\<exists>c'. loop_schedule tNow ?c = Inr c' \<and> m_fUplinkRequest c' \<and>
        m_fBusy c' = m_fBusy ?c \<and> m_uplinkPeriodMs c' = m_uplinkPeriodMs ?c \<and>
        unat (m_tReference c' - m_tReference ?c) =
          (unat (tNow - m_tReference ?c) div unat (m_uplinkPeriodMs ?c))
            * unat (m_uplinkPeriodMs ?c) \<and>
        cSensor_loop cfg lc fo enc tNow env s =
          doUplink cfg lc fo enc env (s\<lparr> mySensor := c'\<lparr> m_fUplinkRequest := False \<rparr> \<rparr>)"
    using sched adv loop by (intro exI [of _ ?c']) simp
next
  assume "tNow - m_tReference (mySensor s) < m_uplinkPeriodMs (mySensor s)"
  then show "loop_schedule tNow (mySensor s) = Inr (mySensor s)"
    by (rule loop_schedule_not_due)
next
  assume "m_uplinkPeriodMs (mySensor s) = 360000 \<and> tNow - m_tReference (mySensor s) = 900000"
  then show "loop_schedule tNow (mySensor s) =
      Inr ((mySensor s)\<lparr> m_fUplinkRequest := True,
             m_tReference := m_tReference (mySensor s) + 720000 \<rparr>)"
    by (simp add: loop_schedule_def Let_def)
qed

theorem loop_schedule_catch_up_witness:
  "loop_schedule 905000 (mySensor (setup_init lmic_consts 5000 (boot zero_rtc))) =
     Inr \<lparr> m_fUplinkRequest = True, m_fBusy = False, m_uplinkPeriodMs = 360000,
           m_tReference = 725000 \<rparr> \<and>
   loop_schedule 364999 (mySensor (setup_init lmic_consts 5000 (boot zero_rtc))) =
     Inr \<lparr> m_fUplinkRequest = False, m_fBusy = False, m_uplinkPeriodMs = 360000,
           m_tReference = 5000 \<rparr>"
proof -
  let ?s = "setup_init lmic_consts 5000 (boot zero_rtc)"
  have c: "mySensor ?s = \<lparr> m_fUplinkRequest = False, m_fBusy = False,
      m_uplinkPeriodMs = 360000, m_tReference = 5000 \<rparr>"
    by (simp add: setup_init_def boot_def cSensor_setup_def Let_def)
  have a: "loop_schedule 905000 (mySensor ?s) =
      Inr ((mySensor ?s)\<lparr> m_fUplinkRequest := True,
             m_tReference := m_tReference (mySensor ?s) + 720000 \<rparr>)"
    using loop_schedule_catch_up [where s = ?s and tNow = 905000 and cfg = sketch_cfg
        and lc = lmic_consts and fo = ex_float_ops and enc = ex_encoder and env = ex_env]
    by (simp add: c)
  have b: "loop_schedule 364999 (mySensor ?s) = Inr (mySensor ?s)"
    using loop_schedule_catch_up [where s = ?s and tNow = 364999 and cfg = sketch_cfg
        and lc = lmic_consts and fo = ex_float_ops and enc = ex_encoder and env = ex_env]
    by (simp add: c)
  from a b show ?thesis by (simp add: c)
qed

subsection \<open>Single flight\<close>

lemma doUplink_skip:
  assumes "m_fBusy (mySensor s) \<or>
    LMIC_opmode env AND (OP_POLL lc OR OP_TXDATA lc OR OP_TXRXPEND lc) \<noteq> 0"
  shows "doUplink cfg lc fo enc env s = Inr s"
  using assms by (auto simp: doUplink_def)

lemma doUplink_returns:
  assumes "doUplink cfg lc fo enc env s = Inr s'"
  shows "s' = s"
  using assms by (auto simp: doUplink_def getTemperature_def split: if_splits)

lemma force_sleep_sensor: "mySensor (force_sleep cfg now s) = mySensor s"
  by (simp add: force_sleep_def)

lemma force_sleep_sent: "sent (force_sleep cfg now s) = sent s"
  by (simp add: force_sleep_def)

lemma force_sleep_loraData: "loraData (force_sleep cfg now s) = loraData s"
  by (simp add: force_sleep_def)

lemma force_sleep_idle:
  assumes "\<not> (FORCE_SLEEP cfg \<and> sleepTimeout s <s now)"
  shows "force_sleep cfg now s = s"
  using assms by (auto simp: force_sleep_def)

lemma loop_schedule_period:
  assumes "loop_schedule tNow c = Inr c'"
  shows "m_uplinkPeriodMs c' = m_uplinkPeriodMs c"
  using assms by (auto simp: loop_schedule_def Let_def split: if_splits)

lemma cSensor_loop_returns:
  assumes "cSensor_loop cfg lc fo enc tNow env s = Inr s'"
  shows "\<exists>c. loop_schedule tNow (mySensor s) = Inr c \<and>
    s' = s\<lparr> mySensor := c\<lparr> m_fUplinkRequest := False \<rparr> \<rparr>"
proof (cases "loop_schedule tNow (mySensor s)")
  case (Inl f)
  with assms show ?thesis by (simp add: cSensor_loop_def)
next
  case (Inr c)
  show ?thesis
  proof (cases "m_fUplinkRequest c")
    case True
    with assms Inr
    have "doUplink cfg lc fo enc env (s\<lparr> mySensor := c\<lparr> m_fUplinkRequest := False \<rparr> \<rparr>) = Inr s'"
      by (simp add: cSensor_loop_def)
    then have "s' = s\<lparr> mySensor := c\<lparr> m_fUplinkRequest := False \<rparr> \<rparr>"
      by (rule doUplink_returns)
    with Inr show ?thesis by simp
  next
    case False
    then have eq: "c\<lparr> m_fUplinkRequest := False \<rparr> = c" by simp
    from assms Inr False have "s' = s\<lparr> mySensor := c \<rparr>"
      by (simp add: cSensor_loop_def)
    then have "s' = s\<lparr> mySensor := c\<lparr> m_fUplinkRequest := False \<rparr> \<rparr>"
      by (simp only: eq)
    with Inr show ?thesis by blast
  qed
qed

lemma cSensor_loop_busy:
  assumes "m_fBusy (mySensor s)"
  shows "cSensor_loop cfg lc fo enc tNow env s =
    (case loop_schedule tNow (mySensor s) of
       Inl f \<Rightarrow> Inl f
     | Inr c \<Rightarrow> Inr (s\<lparr> mySensor := c\<lparr> m_fUplinkRequest := False \<rparr> \<rparr>))"
proof (cases "loop_schedule tNow (mySensor s)")
  case (Inl f)
  then show ?thesis by (simp add: cSensor_loop_def)
next
  case (Inr c)
  then have busy: "m_fBusy c" using assms by (simp add: loop_schedule_busy)
  show ?thesis
  proof (cases "m_fUplinkRequest c")
    case True
    have "doUplink cfg lc fo enc env (s\<lparr> mySensor := c\<lparr> m_fUplinkRequest := False \<rparr> \<rparr>)
        = Inr (s\<lparr> mySensor := c\<lparr> m_fUplinkRequest := False \<rparr> \<rparr>)"
      using busy by (simp add: doUplink_skip)
    with Inr True show ?thesis by (simp add: cSensor_loop_def)
  next
    case False
    then have "c\<lparr> m_fUplinkRequest := False \<rparr> = c" by simp
    with Inr False show ?thesis by (simp add: cSensor_loop_def)
  qed
qed

lemma step_frame:
  assumes "step cfg lc fo enc e s = Inr s'"
  shows "sent s' = sent s \<and> loraData s' = loraData s \<and>
    m_uplinkPeriodMs (mySensor s') = m_uplinkPeriodMs (mySensor s) \<and>
    (m_fBusy (mySensor s) \<and> \<not> m_fBusy (mySensor s') \<longrightarrow> (\<exists>ok. e = TxDone ok))"
proof (cases e)
  case (Loop tNow now env)
  with assms obtain s1 where s1: "cSensor_loop cfg lc fo enc tNow env s = Inr s1"
    and s': "s' = force_sleep cfg now s1"
    by (auto simp: sketch_loop_def split: sum.splits)
  from cSensor_loop_returns [OF s1] obtain c
    where c: "loop_schedule tNow (mySensor s) = Inr c"
      and s1': "s1 = s\<lparr> mySensor := c\<lparr> m_fUplinkRequest := False \<rparr> \<rparr>"
    by blast
  from c have "m_fBusy c = m_fBusy (mySensor s)"
    and "m_uplinkPeriodMs c = m_uplinkPeriodMs (mySensor s)"
    by (simp_all add: loop_schedule_busy loop_schedule_period)
  then show ?thesis
    by (simp add: s' s1' force_sleep_sensor force_sleep_sent force_sleep_loraData)
next
  case (TxDone ok)
  with assms show ?thesis by (auto simp: tx_done_def)
next
  case (Joined now)
  with assms show ?thesis by (auto simp: NetJoin_def)
next
  case TxComplete
  with assms show ?thesis by (auto simp: NetTxComplete_def)
next
  case (SaveInfo Info pExtraInfo nExtraInfo)
  with assms show ?thesis by auto
next
  case (SaveState State)
  with assms show ?thesis by auto
qed

lemma uplink_send_fields:
  "m_fBusy (mySensor (uplink_send True s)) = m_fBusy (mySensor s)"
  "sent (uplink_send True s) = sent s @ [loraData s]"
  "\<not> m_fBusy (mySensor (uplink_send False s))"
  "sent (uplink_send False s) = sent s"
  "loraData (uplink_send ok s) = loraData s"
  "rtc (uplink_send ok s) = rtc s"
  by (simp_all add: uplink_send_def)

lemma doUplink_rest_send:
  assumes "doUplink_rest cfg fo enc water env s = Inr s'"
  shows "if SendBuffer_ok env
    then m_fBusy (mySensor s') \<and> sent s' = sent s @ [loraData s']
    else \<not> m_fBusy (mySensor s') \<and> sent s' = sent s"
proof -
  from assms obtain s2 where prep: "uplink_prepare cfg fo enc water env s = Inr s2"
    and s': "s' = uplink_send (SendBuffer_ok env) s2"
    by (auto simp: doUplink_rest_def split: sum.splits)
  from prep have "m_fBusy (mySensor s2)" and "sent s2 = sent s"
    by (auto simp: uplink_prepare_def Let_def split: if_splits)
  then show ?thesis by (simp add: s' uplink_send_fields)
qed

text \<open>
  C1.  When \<^verbatim>\<open>doUplink\<close> is entered with \<^verbatim>\<open>m_fBusy\<close> set, or with one of the bits
  \<^verbatim>\<open>OP_POLL\<close>, \<^verbatim>\<open>OP_TXDATA\<close>, \<^verbatim>\<open>OP_TXRXPEND\<close> set in \<^verbatim>\<open>LMIC.opmode\<close>, it returns with the
  whole state unchanged: nothing is sent, and neither the scheduler nor the payload buffer
  is written.  A tick of \<^verbatim>\<open>cSensor::loop\<close> with \<^verbatim>\<open>m_fBusy\<close> set does what the scheduler does
  before that call, and nothing else: the reference may advance and a pending request is
  dropped.  While \<^verbatim>\<open>m_fBusy\<close> is set, no event hands a buffer to the network or writes the
  payload buffer or the period, and the only event after which \<^verbatim>\<open>m_fBusy\<close> is clear is the
  completion function of the transmission; the forced-sleep deadline never changes it.
  No event that returns hands a buffer to the network at all, because \<^verbatim>\<open>doUplink\<close> past its
  two checks ends in the call of \<^verbatim>\<open>getTemperature()\<close>.  The statements after that call keep
  the discipline on their own: whatever value the local \<^verbatim>\<open>water_temp_c\<close> has, an accepted
  buffer leaves \<^verbatim>\<open>m_fBusy\<close> set and is the one buffer added, a rejected one leaves \<^verbatim>\<open>m_fBusy\<close>
  clear and adds none.
\<close>

theorem single_flight:
  "(m_fBusy (mySensor s) \<or>
      LMIC_opmode env AND (OP_POLL lc OR OP_TXDATA lc OR OP_TXRXPEND lc) \<noteq> 0 \<longrightarrow>
      doUplink cfg lc fo enc env s = Inr s) \<and>
   (m_fBusy (mySensor s) \<longrightarrow>
      cSensor_loop cfg lc fo enc tNow env s =
        (case loop_schedule tNow (mySensor s) of
           Inl f \<Rightarrow> Inl f
         | Inr c \<Rightarrow> Inr (s\<lparr> mySensor := c\<lparr> m_fUplinkRequest := False \<rparr> \<rparr>))) \<and>
   (m_fBusy (mySensor s) \<and> step cfg lc fo enc e s = Inr s' \<longrightarrow>
      sent s' = sent s \<and> loraData s' = loraData s \<and>
      m_uplinkPeriodMs (mySensor s') = m_uplinkPeriodMs (mySensor s) \<and>
      (\<not> m_fBusy (mySensor s') \<longrightarrow> (\<exists>ok. e = TxDone ok))) \<and>
   m_fBusy (mySensor (force_sleep cfg now s)) = m_fBusy (mySensor s) \<and>
   (step cfg lc fo enc e s = Inr s' \<longrightarrow> sent s' = sent s) \<and>
   (doUplink_rest cfg fo enc water env s = Inr t \<longrightarrow>
      (if SendBuffer_ok env
       then m_fBusy (mySensor t) \<and> sent t = sent s @ [loraData t]
       else \<not> m_fBusy (mySensor t) \<and> sent t = sent s))"
proof (intro conjI impI)
  assume "m_fBusy (mySensor s) \<or>
      LMIC_opmode env AND (OP_POLL lc OR OP_TXDATA lc OR OP_TXRXPEND lc) \<noteq> 0"
  then show "doUplink cfg lc fo enc env s = Inr s" by (rule doUplink_skip)
next
  assume "m_fBusy (mySensor s)"
  then show "cSensor_loop cfg lc fo enc tNow env s =
        (case loop_schedule tNow (mySensor s) of
           Inl f \<Rightarrow> Inl f
         | Inr c \<Rightarrow> Inr (s\<lparr> mySensor := c\<lparr> m_fUplinkRequest := False \<rparr> \<rparr>))"
    by (rule cSensor_loop_busy)
next
  assume a: "m_fBusy (mySensor s) \<and> step cfg lc fo enc e s = Inr s'"
  then have "step cfg lc fo enc e s = Inr s'" by simp
  from step_frame [OF this] a
  show "sent s' = sent s" and "loraData s' = loraData s"
    and "m_uplinkPeriodMs (mySensor s') = m_uplinkPeriodMs (mySensor s)"
    and "\<not> m_fBusy (mySensor s') \<Longrightarrow> \<exists>ok. e = TxDone ok"
    by simp_all
next
  show "m_fBusy (mySensor (force_sleep cfg now s)) = m_fBusy (mySensor s)"
    by (simp add: force_sleep_sensor)
next
  assume "step cfg lc fo enc e s = Inr s'"
  from step_frame [OF this] show "sent s' = sent s" by simp
next
  assume "doUplink_rest cfg fo enc water env s = Inr t"
  then show "if SendBuffer_ok env
       then m_fBusy (mySensor t) \<and> sent t = sent s @ [loraData t]
       else \<not> m_fBusy (mySensor t) \<and> sent t = sent s"
    by (rule doUplink_rest_send)
qed

lemma ex_machine_fields:
  "\<not> m_fBusy (mySensor ex_machine)" "sent ex_machine = []" "rtc ex_machine = ex_rtc"
  "sleepTimeout ex_machine = 112500000"
  "mySensor ex_machine = \<lparr> m_fUplinkRequest = False, m_fBusy = False,
     m_uplinkPeriodMs = 360000, m_tReference = 5000 \<rparr>"
  by (simp_all add: ex_machine_def setup_init_def boot_def cSensor_setup_def Let_def
      sec2osticks_def lmic_consts_def SLEEP_TIMEOUT_INITIAL_def)

lemma ex_busy_fields:
  "m_fBusy (mySensor ex_busy)" "sent ex_busy = []" "sleepTimeout ex_busy = 112500000"
  "mySensor ex_busy = \<lparr> m_fUplinkRequest = False, m_fBusy = True,
     m_uplinkPeriodMs = 360000, m_tReference = 5000 \<rparr>"
  by (simp_all add: ex_busy_def ex_machine_fields)

lemma ex_payload:
  "uplink_payload sketch_cfg ex_float_ops ex_encoder False 1875 ex_env =
     [7, 82, 8, 55, 51, 0, 24, 0, 8, 7, 216, 4, 0, 0, 228, 12, 4, 16, 83, 7, 162, 8, 45]"
  by (simp add: uplink_payload_def sketch_cfg_def ex_float_ops_def ex_encoder_def ex_env_def
      ex_weather_def le16_def le32_def writeBitmap_def writeUint8_def Let_def)

lemma ex_doUplink_rest:
  "\<exists>s2. doUplink_rest sketch_cfg ex_float_ops ex_encoder 1875 ex_env ex_machine = Inr s2"
  "\<exists>s3. doUplink_rest sketch_cfg ex_float_ops ex_encoder 1875
      (ex_env\<lparr> SendBuffer_ok := False \<rparr>) ex_machine = Inr s3"
proof -
  have len: "length (loraData ex_machine) = 36"
    by (simp add: ex_machine_def setup_init_def boot_def Let_def PAYLOAD_SIZE_def)
  have exp: "\<not> runtimeExpired (rtc ex_machine)"
    by (simp add: ex_machine_fields ex_rtc_def NetSaveSessionInfo_def NetSaveSessionState_def
        zero_rtc_def EXTRA_INFO_MEM_SIZE_def)
  have pay: "uplink_payload sketch_cfg ex_float_ops ex_encoder False 1875
      (ex_env\<lparr> SendBuffer_ok := False \<rparr>) =
      uplink_payload sketch_cfg ex_float_ops ex_encoder False 1875 ex_env"
    by (simp add: uplink_payload_def)
  show "\<exists>s2. doUplink_rest sketch_cfg ex_float_ops ex_encoder 1875 ex_env ex_machine = Inr s2"
    using len exp by (simp add: doUplink_rest_def uplink_prepare_def Let_def ex_payload)
  show "\<exists>s3. doUplink_rest sketch_cfg ex_float_ops ex_encoder 1875
      (ex_env\<lparr> SendBuffer_ok := False \<rparr>) ex_machine = Inr s3"
    using len exp by (simp add: doUplink_rest_def uplink_prepare_def Let_def pay ex_payload)
qed

lemma ex_busy_tick:
  "step sketch_cfg lmic_consts ex_float_ops ex_encoder (Loop 905000 112500001 ex_env) ex_busy =
     Inr (force_sleep sketch_cfg 112500001
       (ex_busy\<lparr> mySensor := \<lparr> m_fUplinkRequest = False, m_fBusy = True,
          m_uplinkPeriodMs = 360000, m_tReference = 725000 \<rparr> \<rparr>))"
  by (simp add: sketch_loop_def cSensor_loop_busy ex_busy_fields loop_schedule_def Let_def)

theorem single_flight_witness:
  "doUplink sketch_cfg lmic_consts ex_float_ops ex_encoder ex_env ex_busy = Inr ex_busy \<and>
   doUplink sketch_cfg lmic_consts ex_float_ops ex_encoder (ex_env\<lparr> LMIC_opmode := 0x80 \<rparr>)
     ex_machine = Inr ex_machine \<and>
   cSensor_loop sketch_cfg lmic_consts ex_float_ops ex_encoder 905000 ex_env ex_busy =
     Inr (ex_busy\<lparr> mySensor := \<lparr> m_fUplinkRequest = False, m_fBusy = True,
            m_uplinkPeriodMs = 360000, m_tReference = 725000 \<rparr> \<rparr>) \<and>
   m_fBusy (mySensor (projr (step sketch_cfg lmic_consts ex_float_ops ex_encoder
     (Loop 905000 112500001 ex_env) ex_busy))) \<and>
   sent (projr (step sketch_cfg lmic_consts ex_float_ops ex_encoder
     (Loop 905000 112500001 ex_env) ex_busy)) = [] \<and>
   power (force_sleep sketch_cfg 112500001 ex_busy) = DeepSleep 360000000 \<and>
   m_fBusy (mySensor (force_sleep sketch_cfg 112500001 ex_busy)) \<and>
   m_fBusy (mySensor (projr (doUplink_rest sketch_cfg ex_float_ops ex_encoder 1875 ex_env
     ex_machine))) \<and>
   length (sent (projr (doUplink_rest sketch_cfg ex_float_ops ex_encoder 1875 ex_env
     ex_machine))) = 1 \<and>
   \<not> m_fBusy (mySensor (projr (doUplink_rest sketch_cfg ex_float_ops ex_encoder 1875
     (ex_env\<lparr> SendBuffer_ok := False \<rparr>) ex_machine))) \<and>
   sent (projr (doUplink_rest sketch_cfg ex_float_ops ex_encoder 1875
     (ex_env\<lparr> SendBuffer_ok := False \<rparr>) ex_machine)) = []"
proof -
  let ?tick = "Loop 905000 112500001 ex_env :: int event"
  let ?s1 = "force_sleep sketch_cfg 112500001
       (ex_busy\<lparr> mySensor := \<lparr> m_fUplinkRequest = False, m_fBusy = True,
          m_uplinkPeriodMs = 360000, m_tReference = 725000 \<rparr> \<rparr>)"
  obtain s2 where s2: "doUplink_rest sketch_cfg ex_float_ops ex_encoder 1875 ex_env ex_machine
      = Inr s2"
    using ex_doUplink_rest(1) by blast
  obtain s3 where s3: "doUplink_rest sketch_cfg ex_float_ops ex_encoder 1875
      (ex_env\<lparr> SendBuffer_ok := False \<rparr>) ex_machine = Inr s3"
    using ex_doUplink_rest(2) by blast
  have a: "doUplink sketch_cfg lmic_consts ex_float_ops ex_encoder ex_env ex_busy = Inr ex_busy \<and>
      cSensor_loop sketch_cfg lmic_consts ex_float_ops ex_encoder 905000 ex_env ex_busy =
        Inr (ex_busy\<lparr> mySensor := \<lparr> m_fUplinkRequest = False, m_fBusy = True,
               m_uplinkPeriodMs = 360000, m_tReference = 725000 \<rparr> \<rparr>) \<and>
      m_fBusy (mySensor ?s1) \<and> sent ?s1 = [] \<and>
      m_fBusy (mySensor (force_sleep sketch_cfg 112500001 ex_busy)) \<and>
      m_fBusy (mySensor s2) \<and> sent s2 = [loraData s2]"
    using single_flight [where s = ex_busy and env = ex_env and lc = lmic_consts
        and cfg = sketch_cfg and fo = ex_float_ops and enc = ex_encoder and tNow = 905000
        and e = ?tick and s' = ?s1 and now = 112500001 and water = 1875 and t = s2]
      single_flight [where s = ex_machine and env = ex_env and lc = lmic_consts
        and cfg = sketch_cfg and fo = ex_float_ops and enc = ex_encoder and tNow = 905000
        and e = ?tick and s' = ?s1 and now = 112500001 and water = 1875 and t = s2]
      ex_busy_tick s2
    by (simp add: ex_busy_fields ex_machine_fields loop_schedule_def Let_def ex_env_def)
  have b: "doUplink sketch_cfg lmic_consts ex_float_ops ex_encoder
      (ex_env\<lparr> LMIC_opmode := 0x80 \<rparr>) ex_machine = Inr ex_machine"
    using single_flight [where s = ex_machine and env = "ex_env\<lparr> LMIC_opmode := 0x80 \<rparr>"
        and lc = lmic_consts and cfg = sketch_cfg and fo = ex_float_ops and enc = ex_encoder]
    by (simp add: lmic_consts_def)
  have c: "\<not> m_fBusy (mySensor s3) \<and> sent s3 = []"
    using single_flight [where s = ex_machine and env = "ex_env\<lparr> SendBuffer_ok := False \<rparr>"
        and cfg = sketch_cfg and fo = ex_float_ops and enc = ex_encoder and water = 1875
        and t = s3] s3
    by (simp add: ex_machine_fields)
  have d: "power (force_sleep sketch_cfg 112500001 ex_busy) = DeepSleep 360000000"
    by (simp add: force_sleep_def sketch_cfg_def ex_busy_fields word_sless_alt
        SLEEP_INTERVAL_def)
  from a b c d show ?thesis
    by (simp add: ex_busy_tick s2 s3 del: step.simps)
qed

subsection \<open>The uplink past its two checks\<close>


text \<open>
  C9.  The frame holds the value of the local \<^verbatim>\<open>water_temp_c\<close> (line 1002), which line 918
  initialises with the result of \<^verbatim>\<open>getTemperature()\<close>.  That function ends without a
  \<^verbatim>\<open>return\<close> statement, so the sketch does not determine the value, and the payload differs
  with it for one and the same sensor snapshot, flags and build configuration.
\<close>

theorem uplink_frame_undefined:
  "getTemperature (getTempCByIndex ex_env) = Inl MissingReturn \<and>
   doUplink sketch_cfg lmic_consts ex_float_ops ex_encoder ex_env ex_machine
     = Inl MissingReturn \<and>
   uplink_payload sketch_cfg ex_float_ops ex_encoder False 1875 ex_env \<noteq>
   uplink_payload sketch_cfg ex_float_ops ex_encoder False 2000 ex_env"
  by (simp add: doUplink_def getTemperature_def ex_machine_fields ex_env_def
      uplink_payload_def sketch_cfg_def ex_float_ops_def ex_encoder_def ex_weather_def
      le16_def le32_def writeBitmap_def writeUint8_def Let_def)

subsection \<open>Wake cycle\<close>

lemma step_markers:
  assumes "step cfg lc fo enc e s = Inr s'"
    and "magicFlag1 (rtc s) = MAGIC1 \<and> magicFlag1 (rtc s') \<noteq> MAGIC1 \<or>
         magicFlag2 (rtc s) = MAGIC2 \<and> magicFlag2 (rtc s') \<noteq> MAGIC2"
  shows "FORCE_SLEEP cfg \<and> (\<exists>tNow t env. e = Loop tNow t env \<and> sleepTimeout s <s t)"
proof (cases e)
  case (Loop tNow now env)
  with assms(1) obtain u where u: "cSensor_loop cfg lc fo enc tNow env s = Inr u"
    and s': "s' = force_sleep cfg now u"
    by (auto simp: sketch_loop_def split: sum.splits)
  from cSensor_loop_returns [OF u] have same: "rtc u = rtc s" "sleepTimeout u = sleepTimeout s"
    by auto
  have "FORCE_SLEEP cfg \<and> sleepTimeout u <s now"
  proof (rule ccontr)
    assume "\<not> (FORCE_SLEEP cfg \<and> sleepTimeout u <s now)"
    then have "s' = u" using s' by (simp add: force_sleep_idle)
    with assms(2) same show False by simp
  qed
  with Loop same show ?thesis by simp
next
  case (TxDone ok)
  with assms show ?thesis by (auto simp: tx_done_def)
next
  case (Joined now)
  with assms show ?thesis by (auto simp: NetJoin_def)
next
  case TxComplete
  with assms show ?thesis by (auto simp: NetTxComplete_def split: if_splits)
next
  case (SaveInfo Info pExtraInfo nExtraInfo)
  with assms show ?thesis by (auto simp: NetSaveSessionInfo_def split: if_splits)
next
  case (SaveState State)
  with assms show ?thesis by (auto simp: NetSaveSessionState_def)
qed

text \<open>
  C7, as stated, fails: \<^verbatim>\<open>NetTxComplete\<close> shuts the radio down and sleeps but writes neither
  validity marker, so the saved session is still valid for the next wake-up; a set
  \<^verbatim>\<open>runtimeExpired\<close> is still set after it.
\<close>

theorem NetTxComplete_keeps_markers:
  "magicFlag1 (rtc (NetTxComplete sketch_cfg ex_machine)) = MAGIC1 \<and>
   magicFlag2 (rtc (NetTxComplete sketch_cfg ex_machine)) = MAGIC2 \<and>
   MAGIC1 \<noteq> 0 \<and> MAGIC2 \<noteq> 0 \<and>
   fst (GetAbpProvisioningInfo (rtc (NetTxComplete sketch_cfg ex_machine)) zero_state zero_abp) \<and>
   runtimeExpired (rtc (NetTxComplete sketch_cfg
     (ex_machine\<lparr> rtc := ex_rtc\<lparr> runtimeExpired := True \<rparr> \<rparr>)))"
  using MAGIC_distinct
  by (simp add: NetTxComplete_def ex_machine_fields ex_rtc_fields GetAbpProvisioningInfo_def
      Let_def)

text \<open>
  C7, amended.  With \<^verbatim>\<open>SLEEP_EN\<close>, \<^verbatim>\<open>NetTxComplete\<close> (called when a transmission completed)
  shuts the LoRaWAN stack down and puts the processor into deep sleep for \<open>SLEEP_INTERVAL\<close>
  = 360 seconds, and leaves both validity markers and the saved session as they are.  The
  markers are cleared on the other way into deep sleep: with \<^verbatim>\<open>FORCE_SLEEP\<close>, when
  \<^verbatim>\<open>loop()\<close> finds the deadline passed, it sets \<^verbatim>\<open>runtimeExpired\<close>, shuts the stack down,
  zeroes both markers and sleeps for the same interval; before the deadline that check
  changes nothing.  And that is the only way: if after any event a marker that was valid is
  no longer valid, the event was an iteration of \<^verbatim>\<open>loop()\<close> with \<^verbatim>\<open>FORCE_SLEEP\<close> and the
  deadline passed.
\<close>

theorem NetTxComplete_sleeps:
  assumes "SLEEP_EN cfg"
  shows "power (NetTxComplete cfg s) = DeepSleep (360 * 1000000) \<and>
    lorawan_shutdown (NetTxComplete cfg s) \<and>
    magicFlag1 (rtc (NetTxComplete cfg s)) = magicFlag1 (rtc s) \<and>
    magicFlag2 (rtc (NetTxComplete cfg s)) = magicFlag2 (rtc s) \<and>
    rtcSavedSessionState (rtc (NetTxComplete cfg s)) = rtcSavedSessionState (rtc s) \<and>
    rtcSavedSessionInfo (rtc (NetTxComplete cfg s)) = rtcSavedSessionInfo (rtc s) \<and>
    (FORCE_SLEEP cfg \<and> sleepTimeout s <s now \<longrightarrow>
       power (force_sleep cfg now s) = DeepSleep (360 * 1000000) \<and>
       lorawan_shutdown (force_sleep cfg now s) \<and>
       magicFlag1 (rtc (force_sleep cfg now s)) = 0 \<and>
       magicFlag2 (rtc (force_sleep cfg now s)) = 0 \<and>
       runtimeExpired (rtc (force_sleep cfg now s))) \<and>
    (\<not> (FORCE_SLEEP cfg \<and> sleepTimeout s <s now) \<longrightarrow> force_sleep cfg now s = s) \<and>
    (step cfg lc fo enc e s = Inr s' \<and>
       (magicFlag1 (rtc s) = MAGIC1 \<and> magicFlag1 (rtc s') \<noteq> MAGIC1 \<or>
        magicFlag2 (rtc s) = MAGIC2 \<and> magicFlag2 (rtc s') \<noteq> MAGIC2) \<longrightarrow>
       FORCE_SLEEP cfg \<and> (\<exists>tNow t env. e = Loop tNow t env \<and> sleepTimeout s <s t))"
proof -
  have a: "power (NetTxComplete cfg s) = DeepSleep (360 * 1000000) \<and>
    lorawan_shutdown (NetTxComplete cfg s) \<and>
    magicFlag1 (rtc (NetTxComplete cfg s)) = magicFlag1 (rtc s) \<and>
    magicFlag2 (rtc (NetTxComplete cfg s)) = magicFlag2 (rtc s) \<and>
    rtcSavedSessionState (rtc (NetTxComplete cfg s)) = rtcSavedSessionState (rtc s) \<and>
    rtcSavedSessionInfo (rtc (NetTxComplete cfg s)) = rtcSavedSessionInfo (rtc s) \<and>
    (FORCE_SLEEP cfg \<and> sleepTimeout s <s now \<longrightarrow>
       power (force_sleep cfg now s) = DeepSleep (360 * 1000000) \<and>
       lorawan_shutdown (force_sleep cfg now s) \<and>
       magicFlag1 (rtc (force_sleep cfg now s)) = 0 \<and>
       magicFlag2 (rtc (force_sleep cfg now s)) = 0 \<and>
       runtimeExpired (rtc (force_sleep cfg now s)))"
    using assms by (simp add: NetTxComplete_def force_sleep_def SLEEP_INTERVAL_def)
  have b: "\<not> (FORCE_SLEEP cfg \<and> sleepTimeout s <s now) \<longrightarrow> force_sleep cfg now s = s"
    using force_sleep_idle by blast
  have c: "step cfg lc fo enc e s = Inr s' \<and>
       (magicFlag1 (rtc s) = MAGIC1 \<and> magicFlag1 (rtc s') \<noteq> MAGIC1 \<or>
        magicFlag2 (rtc s) = MAGIC2 \<and> magicFlag2 (rtc s') \<noteq> MAGIC2) \<longrightarrow>
       FORCE_SLEEP cfg \<and> (\<exists>tNow t env. e = Loop tNow t env \<and> sleepTimeout s <s t)"
    using step_markers by blast
  from a b c show ?thesis by blast
qed

lemma ex_idle_tick:
  "step sketch_cfg lmic_consts ex_float_ops ex_encoder (Loop 6000 112500001 ex_env) ex_machine =
     Inr (force_sleep sketch_cfg 112500001 ex_machine)"
proof -
  have ls: "loop_schedule 6000 (mySensor ex_machine) = Inr (mySensor ex_machine)"
    by (simp add: loop_schedule_def Let_def ex_machine_fields)
  have req: "\<not> m_fUplinkRequest (mySensor ex_machine)"
    by (simp add: ex_machine_fields)
  show ?thesis
    by (simp add: sketch_loop_def cSensor_loop_def ls req)
qed

theorem NetTxComplete_sleeps_witness:
  "power (NetTxComplete sketch_cfg ex_machine) = DeepSleep 360000000 \<and>
   lorawan_shutdown (NetTxComplete sketch_cfg ex_machine) \<and>
   magicFlag1 (rtc (NetTxComplete sketch_cfg ex_machine)) = MAGIC1 \<and>
   magicFlag2 (rtc (NetTxComplete sketch_cfg ex_machine)) = MAGIC2 \<and>
   power (force_sleep sketch_cfg 112500001 ex_machine) = DeepSleep 360000000 \<and>
   magicFlag1 (rtc (force_sleep sketch_cfg 112500001 ex_machine)) = 0 \<and>
   magicFlag2 (rtc (force_sleep sketch_cfg 112500001 ex_machine)) = 0 \<and>
   runtimeExpired (rtc (force_sleep sketch_cfg 112500001 ex_machine)) \<and>
   force_sleep sketch_cfg 112500000 ex_machine = ex_machine \<and>
   magicFlag1 (rtc (projr (step sketch_cfg lmic_consts ex_float_ops ex_encoder
     (Loop 6000 112500001 ex_env) ex_machine))) = 0 \<and>
   FORCE_SLEEP sketch_cfg \<and> sleepTimeout ex_machine <s 112500001"
proof -
  let ?tick = "Loop 6000 112500001 ex_env :: int event"
  have late: "sleepTimeout ex_machine <s 112500001"
    and early: "\<not> sleepTimeout ex_machine <s 112500000"
    by (simp_all add: ex_machine_fields word_sless_alt)
  have en: "SLEEP_EN sketch_cfg" "FORCE_SLEEP sketch_cfg"
    by (simp_all add: sketch_cfg_def)
  have cleared: "magicFlag1 (rtc (force_sleep sketch_cfg 112500001 ex_machine)) = 0"
    using late en by (simp add: force_sleep_def)
  have a: "power (NetTxComplete sketch_cfg ex_machine) = DeepSleep 360000000 \<and>
   lorawan_shutdown (NetTxComplete sketch_cfg ex_machine) \<and>
   magicFlag1 (rtc (NetTxComplete sketch_cfg ex_machine)) = MAGIC1 \<and>
   magicFlag2 (rtc (NetTxComplete sketch_cfg ex_machine)) = MAGIC2 \<and>
   power (force_sleep sketch_cfg 112500001 ex_machine) = DeepSleep 360000000 \<and>
   magicFlag1 (rtc (force_sleep sketch_cfg 112500001 ex_machine)) = 0 \<and>
   magicFlag2 (rtc (force_sleep sketch_cfg 112500001 ex_machine)) = 0 \<and>
   runtimeExpired (rtc (force_sleep sketch_cfg 112500001 ex_machine)) \<and>
   (\<exists>tNow t env. ?tick = Loop tNow t env \<and> sleepTimeout ex_machine <s t)"
    using NetTxComplete_sleeps [where cfg = sketch_cfg and s = ex_machine
        and now = 112500001 and lc = lmic_consts and fo = ex_float_ops and enc = ex_encoder
        and e = ?tick and s' = "force_sleep sketch_cfg 112500001 ex_machine"]
      late en ex_idle_tick cleared MAGIC_distinct
    by (simp add: ex_machine_fields ex_rtc_fields del: step.simps)
  have b: "force_sleep sketch_cfg 112500000 ex_machine = ex_machine"
    using NetTxComplete_sleeps [where cfg = sketch_cfg and s = ex_machine
        and now = 112500000 and lc = lmic_consts and fo = ex_float_ops and enc = ex_encoder
        and e = ?tick and s' = "force_sleep sketch_cfg 112500001 ex_machine"] early en
    by simp
  from a b late en cleared show ?thesis
    by (simp add: ex_idle_tick del: step.simps)
qed

lemma sketch_setup_stops: "sketch_setup lc tNow s = Inl MissingReturn"
  by (simp add: sketch_setup_def uplinkRequest_def Let_def)

text \<open>
  C8, as stated, fails for \<^verbatim>\<open>setup()\<close>: the deadline is assigned the tick count of 1800
  seconds, without the current time.  \<^verbatim>\<open>setup()\<close> assigns it after \<^verbatim>\<open>delay(500)\<close>, 31250
  ticks of 16 microseconds after the start of the clock at the earliest.
\<close>

theorem setup_deadline_absolute:
  "sleepTimeout (setup_init lmic_consts 500 (boot zero_rtc)) = 112500000 \<and>
   sleepTimeout (setup_init lmic_consts 500 (boot zero_rtc)) \<noteq>
     31250 + sec2osticks lmic_consts SLEEP_TIMEOUT_INITIAL"
  by (simp add: setup_init_def Let_def sec2osticks_def lmic_consts_def
      SLEEP_TIMEOUT_INITIAL_def)

text \<open>
  C8, amended.  \<^verbatim>\<open>setup()\<close> sets the deadline to the tick count of
  \<open>SLEEP_TIMEOUT_INITIAL\<close> = 1800 seconds, counted from the start of the tick clock, whatever
  the time of the call: that is the deadline when \<^verbatim>\<open>setup()\<close> reaches its last statement.
  \<^verbatim>\<open>NetJoin\<close> sets it to the current time plus the tick count of \<open>SLEEP_TIMEOUT_JOINED\<close> =
  600 seconds, the shorter budget.
\<close>

theorem sleep_deadlines:
  "sleepTimeout (setup_init lc tNow s) = sec2osticks lc SLEEP_TIMEOUT_INITIAL \<and>
   SLEEP_TIMEOUT_INITIAL = 1800 \<and>
   sleepTimeout (NetJoin lc now s) = now + sec2osticks lc SLEEP_TIMEOUT_JOINED \<and>
   SLEEP_TIMEOUT_JOINED = 600 \<and>
   SLEEP_TIMEOUT_JOINED < SLEEP_TIMEOUT_INITIAL"
  by (simp add: setup_init_def NetJoin_def Let_def SLEEP_TIMEOUT_INITIAL_def
      SLEEP_TIMEOUT_JOINED_def)

theorem sleep_deadlines_witness:
  "sleepTimeout (setup_init lmic_consts 500 (boot zero_rtc)) = 112500000 \<and>
   sleepTimeout (NetJoin lmic_consts 1000 ex_machine) = 37501000"
proof -
  have ticks: "sec2osticks lmic_consts SLEEP_TIMEOUT_INITIAL = 112500000"
    "sec2osticks lmic_consts SLEEP_TIMEOUT_JOINED = 37500000"
    by (simp_all add: sec2osticks_def lmic_consts_def SLEEP_TIMEOUT_INITIAL_def
        SLEEP_TIMEOUT_JOINED_def)
  show ?thesis
    using sleep_deadlines [of lmic_consts 500 "boot zero_rtc" 1000]
      sleep_deadlines [of lmic_consts 500 ex_machine 1000]
    by (simp add: ticks)
qed

end
